theory Spec2Isabelle
  imports Complex_Main
begin

section \<open>JavaScript values\<close>

text \<open>
  The webhook body, the gateway's response and the blobs stored in JSONB columns are
  JavaScript values as \<open>JSON.parse\<close> builds them, plus \<open>Date\<close> objects, which the service
  puts into a blob itself. An object is the list of its own properties (keys distinct; a
  lookup takes the first binding). A number is a rational: only its being zero is ever
  tested. Strings are sequences of 8-bit code units.
\<close>

datatype jsval =
    JNull
  | JBool bool
  | JNum rat
  | JStr string
  | JArr "jsval list"
  | JObj "(string \<times> jsval) list"
  | JDate int

text \<open>\<open>if (v)\<close>: the falsy values are \<open>null\<close>, \<open>false\<close>, \<open>0\<close> and the empty string.\<close>

fun truthy :: "jsval \<Rightarrow> bool" where
  "truthy JNull = False"
| "truthy (JBool b) = b"
| "truthy (JNum n) = (n \<noteq> 0)"
| "truthy (JStr s) = (s \<noteq> [])"
| "truthy (JArr vs) = True"
| "truthy (JObj kvs) = True"
| "truthy (JDate t) = True"

text \<open>
  \<open>v.k\<close> for a value that is not \<open>null\<close>: \<open>None\<close> is \<open>undefined\<close>. The keys the service
  reads (\<open>tranid\<close>, \<open>transaction_id\<close>, \<open>id\<close>, \<open>status\<close>, \<open>state\<close>, \<open>amount\<close>, \<open>number\<close>,
  \<open>phone_number\<close>, \<open>payment_id\<close>) are no built-in property of a string, an array, a
  number, a boolean or a date, so only an object can have them.
\<close>

fun property :: "jsval \<Rightarrow> string \<Rightarrow> jsval option" where
  "property (JObj kvs) k = map_of kvs k"
| "property v k = None"

text \<open>\<open>if (v.k)\<close>: the property's value when it is there and truthy.\<close>

definition truthy_prop :: "jsval \<Rightarrow> string \<Rightarrow> jsval option" where
  "truthy_prop v k =
     (case property v k of
        None \<Rightarrow> None
      | Some x \<Rightarrow> if truthy x then Some x else None)"

text \<open>A thrown \<open>Error\<close> or \<open>TypeError\<close>, with its message.\<close>

datatype error = Error string | TypeError string

fun message :: "error \<Rightarrow> string" where
  "message (Error m) = m"
| "message (TypeError m) = m"

text \<open>\<open>String.prototype.toLowerCase\<close> on the code units \<open>A\<close>..\<open>Z\<close>.\<close>

definition lower_char :: "char \<Rightarrow> char" where
  "lower_char c =
     (case map_of (zip ''ABCDEFGHIJKLMNOPQRSTUVWXYZ'' ''abcdefghijklmnopqrstuvwxyz'') c of
        Some l \<Rightarrow> l
      | None \<Rightarrow> c)"

definition toLowerCase :: "string \<Rightarrow> string" where
  "toLowerCase s = map lower_char s"

text \<open>
  \<open>v.toLowerCase()\<close> for a truthy \<open>v\<close> read from the payload: only a string has the
  method; on anything else the call throws a \<open>TypeError\<close>.
\<close>

definition call_toLowerCase :: "string \<Rightarrow> jsval \<Rightarrow> error + string" where
  "call_toLowerCase path v =
     (case v of
        JStr s \<Rightarrow> Inr (toLowerCase s)
      | _ \<Rightarrow> Inl (TypeError (path @ ''.toLowerCase is not a function'')))"

section \<open>The webhook reconciler: field extraction and status mapping\<close>

text \<open>
  The locals of \<open>handleFastlipaWebhook\<close> after the extraction block. \<open>None\<close> is the
  initial \<open>null\<close>. The local \<open>amount\<close> (\<open>parseFloat\<close> of the payload's \<open>amount\<close>, which
  cannot throw) is only printed and is left out.
\<close>

record extracted =
  ex_transactionId :: "jsval option"
  ex_status :: string
  ex_phoneNumber :: "jsval option"

definition extractTransactionId :: "jsval \<Rightarrow> jsval option" where
  "extractTransactionId webhookData =
     (case truthy_prop webhookData ''tranid'' of
        Some v \<Rightarrow> Some v
      | None \<Rightarrow>
          (case truthy_prop webhookData ''transaction_id'' of
             Some v \<Rightarrow> Some v
           | None \<Rightarrow>
               (case truthy_prop webhookData ''id'' of
                  Some v \<Rightarrow> Some v
                | None \<Rightarrow> None)))"

definition extractStatus :: "jsval \<Rightarrow> error + string" where
  "extractStatus webhookData =
     (case truthy_prop webhookData ''status'' of
        Some v \<Rightarrow> call_toLowerCase ''webhookData.status'' v
      | None \<Rightarrow>
          (case truthy_prop webhookData ''state'' of
             Some v \<Rightarrow> call_toLowerCase ''webhookData.state'' v
           | None \<Rightarrow> Inr ''unknown''))"

definition extractPhoneNumber :: "jsval \<Rightarrow> jsval option" where
  "extractPhoneNumber webhookData =
     (case truthy_prop webhookData ''number'' of
        Some v \<Rightarrow> Some v
      | None \<Rightarrow>
          (case truthy_prop webhookData ''phone_number'' of
             Some v \<Rightarrow> Some v
           | None \<Rightarrow> None))"

text \<open>
  The whole extraction block. Reading a property of \<open>null\<close> throws at the first read;
  the status is read after the transaction id and before the phone number.
\<close>

definition extractFields :: "jsval \<Rightarrow> error + extracted" where
  "extractFields webhookData =
     (if webhookData = JNull
      then Inl (TypeError ''Cannot read properties of null (reading 'tranid')'')
      else
        (case extractStatus webhookData of
           Inl e \<Rightarrow> Inl e
         | Inr s \<Rightarrow>
             Inr \<lparr>ex_transactionId = extractTransactionId webhookData,
                  ex_status = s,
                  ex_phoneNumber = extractPhoneNumber webhookData\<rparr>))"

text \<open>The \<open>switch (status)\<close> of the reconciler.\<close>

definition internalStatus :: "string \<Rightarrow> string" where
  "internalStatus status =
     (if status = ''success'' \<or> status = ''successful'' \<or> status = ''completed''
         \<or> status = ''paid''
      then ''completed''
      else if status = ''failed'' \<or> status = ''error'' \<or> status = ''cancelled''
         \<or> status = ''canceled''
      then ''failed''
      else if status = ''pending'' \<or> status = ''processing'' \<or> status = ''initiated''
      then ''processing''
      else ''pending'')"



section \<open>The payment store\<close>

text \<open>
  A row of \<open>payments\<close>, with the columns that the statements below read or write. The
  other columns (amount, currency, customer name and e-mail, description, return URL,
  payment reference, payment method) are written once by the link generator's INSERT.
  Times are milliseconds; a nullable column is an option, and the JSONB column holds
  \<open>JNull\<close> for NULL.
\<close>

record payment =
  row_id :: nat
  payment_link_id :: string
  phone_number :: "string option"
  status :: string
  external_payment_id :: "string option"
  fastlipa_response :: jsval
  created_at :: int
  updated_at :: int
  paid_at :: "int option"

text \<open>A row of \<open>webhook_logs\<close> (without its serial id).\<close>

record webhook_log =
  payment_id :: "nat option"
  webhook_data :: jsval
  log_status :: string
  error_message :: "string option"
  log_created_at :: int

text \<open>The body of the gateway's create-transaction request.\<close>

record gateway_request =
  number :: string
  amount :: int
  name :: "string option"

text \<open>
  The world the service runs in: the two tables, the clock (read by \<open>new Date()\<close> and by
  the database's \<open>NOW()\<close>; one call of the service is taken at one instant), the fate of
  the statements still to be sent to the pool (\<open>Some m\<close>: the next \<open>pool.query\<close> rejects
  with message \<open>m\<close>; past the end of the list every statement is accepted), and the
  requests sent to the gateway so far.
\<close>

record world =
  payments :: "payment list"
  webhook_logs :: "webhook_log list"
  clock :: int
  faults :: "string option list"
  gateway_requests :: "gateway_request list"

definition pool_query :: "world \<Rightarrow> string option \<times> world" where
  "pool_query w =
     (case faults w of
        [] \<Rightarrow> (None, w)
      | f # fs \<Rightarrow> (f, w\<lparr>faults := fs\<rparr>))"

text \<open>\<open>rows[0]\<close>: \<open>None\<close> is \<open>undefined\<close>.\<close>

definition first_row :: "'a list \<Rightarrow> 'a option" where
  "first_row rows = (case rows of [] \<Rightarrow> None | r # _ \<Rightarrow> Some r)"

text \<open>
  The pool's driver turns a bound parameter into text before the database compares it
  with a VARCHAR column. The driver is a library outside this repository, so its
  conversion \<open>prepareValue\<close> is a parameter of every operation that binds a payload
  value. Rows come back in table order where the statement gives no order.
\<close>

type_synonym prepare = "jsval \<Rightarrow> string"

text \<open>\<open>SELECT * FROM payments WHERE external_payment_id = $1\<close>\<close>

definition select_by_external_id ::
  "prepare \<Rightarrow> jsval \<Rightarrow> world \<Rightarrow> (error + payment list) \<times> world" where
  "select_by_external_id prepareValue transactionId w =
     (case pool_query w of
        (Some m, w') \<Rightarrow> (Inl (Error m), w')
      | (None, w') \<Rightarrow>
          (Inr (filter (\<lambda>p. external_payment_id p = Some (prepareValue transactionId))
                  (payments w')), w'))"

text \<open>
  \<open>ORDER BY created_at DESC LIMIT 1\<close>: the row created last, the first of them in table
  order when several share that time.
\<close>

fun newest :: "payment list \<Rightarrow> payment option" where
  "newest [] = None"
| "newest (p # ps) =
     (case newest ps of
        None \<Rightarrow> Some p
      | Some q \<Rightarrow> if created_at p < created_at q then Some q else Some p)"

text \<open>
  \<open>SELECT * FROM payments WHERE phone_number = $1 AND created_at > NOW() - INTERVAL '1 hour'
  ORDER BY created_at DESC LIMIT 1\<close>
\<close>

definition select_recent_by_phone ::
  "prepare \<Rightarrow> jsval \<Rightarrow> world \<Rightarrow> (error + payment list) \<times> world" where
  "select_recent_by_phone prepareValue phoneNumber w =
     (case pool_query w of
        (Some m, w') \<Rightarrow> (Inl (Error m), w')
      | (None, w') \<Rightarrow>
          (Inr (case newest (filter (\<lambda>p. phone_number p = Some (prepareValue phoneNumber)
                                         \<and> clock w' - 3600000 < created_at p)
                               (payments w')) of
                  None \<Rightarrow> []
                | Some p \<Rightarrow> [p]), w'))"

section \<open>updatePaymentStatus\<close>

text \<open>One entry of \<open>updateData\<close>: a column of the SET clause with its value.\<close>

datatype assignment =
    Set_status string
  | Set_fastlipa_response jsval
  | Set_updated_at int
  | Set_paid_at int
  | Set_external_payment_id string

definition updateData :: "prepare \<Rightarrow> int \<Rightarrow> string \<Rightarrow> jsval \<Rightarrow> assignment list" where
  "updateData prepareValue now st fastlipaResponse =
     [Set_status st, Set_fastlipa_response fastlipaResponse, Set_updated_at now]
     @ (if st = ''completed'' then [Set_paid_at now] else [])
     @ (if truthy fastlipaResponse
        then (case truthy_prop fastlipaResponse ''payment_id'' of
                Some v \<Rightarrow> [Set_external_payment_id (prepareValue v)]
              | None \<Rightarrow> [])
        else [])"

fun assign :: "assignment \<Rightarrow> payment \<Rightarrow> payment" where
  "assign (Set_status s) p = p\<lparr>status := s\<rparr>"
| "assign (Set_fastlipa_response r) p = p\<lparr>fastlipa_response := r\<rparr>"
| "assign (Set_updated_at t) p = p\<lparr>updated_at := t\<rparr>"
| "assign (Set_paid_at t) p = p\<lparr>paid_at := Some t\<rparr>"
| "assign (Set_external_payment_id x) p = p\<lparr>external_payment_id := Some x\<rparr>"

text \<open>The trigger \<open>update_payments_updated_at\<close>, BEFORE UPDATE FOR EACH ROW.\<close>

definition update_updated_at_column :: "int \<Rightarrow> payment \<Rightarrow> payment" where
  "update_updated_at_column now p = p\<lparr>updated_at := now\<rparr>"

text \<open>
  What the table's declaration rejects in the rows a statement writes: an external id
  longer than VARCHAR(255), and a status outside the CHECK list.
\<close>

definition valid_status :: "string \<Rightarrow> bool" where
  "valid_status st =
     (st \<in> set [''pending'', ''processing'', ''completed'', ''failed'', ''cancelled''])"

fun too_long :: "assignment \<Rightarrow> string option" where
  "too_long (Set_external_payment_id x) =
     (if 255 < length x then Some ''value too long for type character varying(255)''
      else None)"
| "too_long a = None"

fun check_violation :: "assignment \<Rightarrow> string option" where
  "check_violation (Set_status s) =
     (if valid_status s then None
      else Some ''new row for relation payments violates check constraint payments_status_check'')"
| "check_violation a = None"

text \<open>The values are converted to their columns' types before the new row is checked.\<close>

definition rejected_values :: "assignment list \<Rightarrow> string list" where
  "rejected_values sets = List.map_filter too_long sets @ List.map_filter check_violation sets"

text \<open>\<open>UPDATE payments SET ... WHERE payment_link_id = $n RETURNING *\<close>\<close>

definition sql_update ::
  "assignment list \<Rightarrow> string \<Rightarrow> world \<Rightarrow> (error + payment list) \<times> world" where
  "sql_update sets paymentLinkId w =
     (case pool_query w of
        (Some m, w') \<Rightarrow> (Inl (Error m), w')
      | (None, w') \<Rightarrow>
          (let new_row = (\<lambda>p. update_updated_at_column (clock w') (fold assign sets p));
               hit = filter (\<lambda>p. payment_link_id p = paymentLinkId) (payments w')
           in case (if hit = [] then [] else rejected_values sets) of
                m # _ \<Rightarrow> (Inl (Error m), w')
              | [] \<Rightarrow>
                  (Inr (map new_row hit),
                   w'\<lparr>payments :=
                        map (\<lambda>p. if payment_link_id p = paymentLinkId then new_row p else p)
                          (payments w')\<rparr>)))"

definition updatePaymentStatus ::
  "prepare \<Rightarrow> string \<Rightarrow> string \<Rightarrow> jsval \<Rightarrow> world \<Rightarrow> (error + payment option) \<times> world" where
  "updatePaymentStatus prepareValue paymentLinkId st fastlipaResponse w =
     (case sql_update (updateData prepareValue (clock w) st fastlipaResponse) paymentLinkId w of
        (Inl e, w') \<Rightarrow> (Inl (Error (''Failed to update payment status: '' @ message e)), w')
      | (Inr rows, w') \<Rightarrow> (Inr (first_row rows), w'))"

section \<open>logWebhookData\<close>

text \<open>The INSERT into \<open>webhook_logs\<close>; a rejected INSERT is caught and only printed.\<close>

definition logWebhookData ::
  "jsval \<Rightarrow> string \<Rightarrow> nat option \<Rightarrow> string option \<Rightarrow> world \<Rightarrow> world" where
  "logWebhookData webhookData st paymentId err w =
     (case pool_query w of
        (Some m, w') \<Rightarrow> w'
      | (None, w') \<Rightarrow>
          w'\<lparr>webhook_logs := webhook_logs w' @
               [\<lparr>payment_id = paymentId, webhook_data = webhookData, log_status = st,
                 error_message = err, log_created_at = clock w'\<rparr>]\<rparr>)"

section \<open>handleFastlipaWebhook\<close>

text \<open>
  The two objects the reconciler returns:
  \<open>{success, message, receivedData: {transactionId, phoneNumber, status}}\<close> and
  \<open>{success, message, paymentId, previousStatus, newStatus, transactionId}\<close>.
\<close>

datatype webhook_result =
    Unmatched (success: bool) (result_message: string)
      (received_transactionId: "jsval option") (received_phoneNumber: "jsval option")
      (received_status: string)
  | Matched (success: bool) (result_message: string)
      (paymentId: nat) (previousStatus: string) (newStatus: string)
      (transactionId: "jsval option")

text \<open>The lookup by external id, when a transaction id was extracted.\<close>

definition find_by_transactionId ::
  "prepare \<Rightarrow> extracted \<Rightarrow> world \<Rightarrow> (error + payment option) \<times> world" where
  "find_by_transactionId prepareValue ex w =
     (case ex_transactionId ex of
        None \<Rightarrow> (Inr None, w)
      | Some tid \<Rightarrow>
          (case select_by_external_id prepareValue tid w of
             (Inl e, w1) \<Rightarrow> (Inl e, w1)
           | (Inr paymentsByExtId, w1) \<Rightarrow> (Inr (first_row paymentsByExtId), w1)))"

text \<open>The whole lookup: the fallback by phone number runs when no payment was found yet.\<close>

definition find_payment ::
  "prepare \<Rightarrow> extracted \<Rightarrow> world \<Rightarrow> (error + payment option) \<times> world" where
  "find_payment prepareValue ex w =
     (case find_by_transactionId prepareValue ex w of
        (Inl e, w1) \<Rightarrow> (Inl e, w1)
      | (Inr (Some p), w1) \<Rightarrow> (Inr (Some p), w1)
      | (Inr None, w1) \<Rightarrow>
          (case ex_phoneNumber ex of
             None \<Rightarrow> (Inr None, w1)
           | Some phone \<Rightarrow>
               (case select_recent_by_phone prepareValue phone w1 of
                  (Inl e, w2) \<Rightarrow> (Inl e, w2)
                | (Inr paymentsByPhone, w2) \<Rightarrow> (Inr (first_row paymentsByPhone), w2))))"

text \<open>The blob the reconciler attaches to its update.\<close>

definition webhook_blob :: "jsval \<Rightarrow> extracted \<Rightarrow> int \<Rightarrow> jsval" where
  "webhook_blob webhookData ex now =
     JObj [(''webhookData'', webhookData),
           (''externalPaymentId'',
              case ex_transactionId ex of None \<Rightarrow> JNull | Some v \<Rightarrow> v),
           (''fastlipaStatus'', JStr (ex_status ex)),
           (''processedAt'', JDate now)]"

text \<open>The \<open>try\<close> block.\<close>

definition webhook_try ::
  "prepare \<Rightarrow> jsval \<Rightarrow> world \<Rightarrow> (error + webhook_result) \<times> world" where
  "webhook_try prepareValue webhookData w =
     (case extractFields webhookData of
        Inl e \<Rightarrow> (Inl e, w)
      | Inr ex \<Rightarrow>
          (case find_payment prepareValue ex w of
             (Inl e, w1) \<Rightarrow> (Inl e, w1)
           | (Inr None, w1) \<Rightarrow>
               (Inr (Unmatched False ''No matching payment found''
                       (ex_transactionId ex) (ex_phoneNumber ex) (ex_status ex)),
                logWebhookData webhookData ''no_matching_payment'' None None w1)
           | (Inr (Some payment), w1) \<Rightarrow>
               (case (if status payment \<noteq> internalStatus (ex_status ex)
                      then updatePaymentStatus prepareValue (payment_link_id payment)
                             (internalStatus (ex_status ex))
                             (webhook_blob webhookData ex (clock w1)) w1
                      else (Inr None, w1)) of
                  (Inl e, w2) \<Rightarrow> (Inl e, w2)
                | (Inr updated, w2) \<Rightarrow>
                    (Inr (Matched True ''Webhook processed successfully''
                            (row_id payment) (status payment)
                            (internalStatus (ex_status ex)) (ex_transactionId ex)),
                     logWebhookData webhookData ''processed'' (Some (row_id payment))
                       None w2))))"

text \<open>
  The \<open>catch\<close> block logs the error and throws it again. The second argument of the
  source, the HTTP request, is only printed.
\<close>

definition handleFastlipaWebhook ::
  "prepare \<Rightarrow> jsval \<Rightarrow> world \<Rightarrow> (error + webhook_result) \<times> world" where
  "handleFastlipaWebhook prepareValue webhookData w =
     (case webhook_try prepareValue webhookData w of
        (Inr r, w') \<Rightarrow> (Inr r, w')
      | (Inl e, w') \<Rightarrow>
          (Inl e, logWebhookData webhookData ''error'' None (Some (message e)) w'))"

section \<open>processPayment\<close>

text \<open>
  The argument of \<open>processPayment\<close>. The phone number is a string (the router validates
  the request); \<open>parsed_amount\<close> is what \<open>parseFloat\<close> returns for the amount.
\<close>

record paymentData =
  paymentLinkId :: string
  phoneNumber :: string
  parsed_amount :: rat
  customerName :: "string option"

definition startsWith :: "string \<Rightarrow> string \<Rightarrow> bool" where
  "startsWith s searchString = (take (length searchString) s = searchString)"

definition substring :: "string \<Rightarrow> nat \<Rightarrow> string" where
  "substring s start = drop start s"

definition localPhoneNumber :: "string \<Rightarrow> string" where
  "localPhoneNumber phone =
     (if startsWith phone ''255'' then substring phone 3 else phone)"

text \<open>\<open>Math.round\<close>: to the nearest integer, a half upwards.\<close>

definition Math_round :: "rat \<Rightarrow> int" where
  "Math_round x = \<lfloor>x + 1 / 2\<rfloor>"

definition paymentPayload :: "paymentData \<Rightarrow> gateway_request" where
  "paymentPayload pd =
     \<lparr>number = localPhoneNumber (phoneNumber pd),
      amount = Math_round (parsed_amount pd),
      name = customerName pd\<rparr>"

text \<open>The object \<open>processPayment\<close> returns.\<close>

record process_result =
  pr_success :: bool
  pr_paymentId :: "jsval option"
  pr_status :: jsval
  pr_instructions :: string

text \<open>
  The \<open>return\<close> statement reads \<open>response.data.tranid\<close> first, which throws when the
  response has no body.
\<close>

definition process_return :: "jsval \<Rightarrow> error + process_result" where
  "process_return data =
     (if data = JNull
      then Inl (TypeError ''Cannot read properties of null (reading 'tranid')'')
      else Inr \<lparr>pr_success = True,
                pr_paymentId =
                  (case truthy_prop data ''tranid'' of
                     Some v \<Rightarrow> Some v
                   | None \<Rightarrow> property data ''transaction_id''),
                pr_status =
                  (case truthy_prop data ''status'' of
                     Some v \<Rightarrow> v
                   | None \<Rightarrow> JStr ''pending''),
                pr_instructions =
                  ''Payment initiated successfully. Use the transaction ID to check status.''\<rparr>)"

text \<open>The \<open>catch\<close> block of \<open>processPayment\<close>.\<close>

definition process_catch ::
  "prepare \<Rightarrow> string \<Rightarrow> error \<Rightarrow> world \<Rightarrow> (error + process_result) \<times> world" where
  "process_catch prepareValue linkId e w =
     (case updatePaymentStatus prepareValue linkId ''failed''
             (JObj [(''error'', JStr (message e))]) w of
        (Inl e', w') \<Rightarrow> (Inl e', w')
      | (Inr updated, w') \<Rightarrow>
          (Inl (Error (''Payment processing failed: '' @ message e)), w'))"

text \<open>
  \<open>axios_post\<close> is the gateway as the service sees it: \<open>Inl m\<close> when the call rejects
  with message \<open>m\<close> (no connection, a status outside 2xx), \<open>Inr data\<close> with the body of
  the response otherwise.
\<close>

definition processPayment ::
  "prepare \<Rightarrow> (gateway_request \<Rightarrow> string + jsval) \<Rightarrow> paymentData \<Rightarrow> world
     \<Rightarrow> (error + process_result) \<times> world" where
  "processPayment prepareValue axios_post pd w =
     (let w0 = w\<lparr>gateway_requests := gateway_requests w @ [paymentPayload pd]\<rparr>
      in case axios_post (paymentPayload pd) of
           Inl m \<Rightarrow> process_catch prepareValue (paymentLinkId pd) (Error m) w0
         | Inr data \<Rightarrow>
             (case updatePaymentStatus prepareValue (paymentLinkId pd) ''processing'' data w0 of
                (Inl e, w1) \<Rightarrow> process_catch prepareValue (paymentLinkId pd) e w1
              | (Inr updated, w1) \<Rightarrow>
                  (case process_return data of
                     Inl e \<Rightarrow> process_catch prepareValue (paymentLinkId pd) e w1
                   | Inr r \<Rightarrow> (Inr r, w1))))"

section \<open>Example inputs\<close>

text \<open>
  The driver's conversion on string parameters, which it passes on unchanged; it is the
  conversion used in the examples, whose payloads bind strings only.
\<close>

definition string_param :: prepare where
  "string_param v = (case v of JStr s \<Rightarrow> s | _ \<Rightarrow> [])"

text \<open>
  A store with one payment that the processor has sent to the gateway, at a time when
  the payment is 1000 ms old, and the notification the gateway then delivers for it.
\<close>

definition example_payment :: payment where
  "example_payment =
     \<lparr>row_id = 7, payment_link_id = ''link-1'', phone_number = Some ''712345678'',
      status = ''processing'', external_payment_id = None, fastlipa_response = JNull,
      created_at = 1000, updated_at = 1000, paid_at = None\<rparr>"

definition example_world :: world where
  "example_world = \<lparr>payments = [example_payment], webhook_logs = [], clock = 2000, faults = [], gateway_requests = []\<rparr>"

definition example_webhook :: jsval where
  "example_webhook =
     JObj [(''tranid'', JStr ''pay_test123''), (''status'', JStr ''SUCCESS''),
           (''amount'', JNum 1000), (''number'', JStr ''712345678'')]"

text \<open>
  The same store while the database is unreachable: the next two statements are
  rejected.
\<close>

definition outage_world :: world where
  "outage_world =
     example_world\<lparr>faults := [Some ''Connection terminated'', Some ''Connection terminated'']\<rparr>"




text \<open>
  A gateway that cannot be reached, and two requests to process the payment: one with
  the country prefix in the phone number, one in local format.
\<close>

definition unreachable_gateway :: "gateway_request \<Rightarrow> string + jsval" where
  "unreachable_gateway request = Inl ''Network Error''"

definition example_paymentData :: paymentData where
  "example_paymentData =
     \<lparr>paymentLinkId = ''link-1'', phoneNumber = ''255712345678'', parsed_amount = 1000,
      customerName = None\<rparr>"

definition local_paymentData :: paymentData where
  "local_paymentData = example_paymentData\<lparr>phoneNumber := ''0712345678''\<rparr>"




section \<open>Auxiliary facts\<close>

lemmas reconciler_defs =
  handleFastlipaWebhook_def webhook_try_def extractFields_def extractStatus_def
  extractTransactionId_def extractPhoneNumber_def truthy_prop_def call_toLowerCase_def
  toLowerCase_def lower_char_def internalStatus_def find_payment_def
  find_by_transactionId_def select_by_external_id_def select_recent_by_phone_def
  pool_query_def first_row_def updatePaymentStatus_def sql_update_def updateData_def
  update_updated_at_column_def rejected_values_def valid_status_def logWebhookData_def
  webhook_blob_def

lemmas example_defs =
  string_param_def example_payment_def example_world_def example_webhook_def outage_world_def


text \<open>
  What each operation leaves alone.
\<close>

lemma pool_query_accepts: "faults w = [] \<Longrightarrow> pool_query w = (None, w)"
  by (simp add: pool_query_def)

lemma pool_query_frame:
  "payments (snd (pool_query w)) = payments w"
  "webhook_logs (snd (pool_query w)) = webhook_logs w"
  "clock (snd (pool_query w)) = clock w"
  "gateway_requests (snd (pool_query w)) = gateway_requests w"
  by (simp_all add: pool_query_def split: list.splits)

lemma sql_update_logs:
  "webhook_logs (snd (sql_update sets l w)) = webhook_logs w"
  "clock (snd (sql_update sets l w)) = clock w"
  "gateway_requests (snd (sql_update sets l w)) = gateway_requests w"
  by (simp_all add: sql_update_def Let_def pool_query_def split: list.splits option.splits prod.splits)

lemma updatePaymentStatus_frame:
  "webhook_logs (snd (updatePaymentStatus pv l st r w)) = webhook_logs w"
  "clock (snd (updatePaymentStatus pv l st r w)) = clock w"
  "gateway_requests (snd (updatePaymentStatus pv l st r w)) = gateway_requests w"
  using sql_update_logs[of "updateData pv (clock w) st r" l w]
  by (auto simp: updatePaymentStatus_def split: prod.splits sum.splits)

lemma find_payment_frame:
  "payments (snd (find_payment pv ex w)) = payments w"
  "webhook_logs (snd (find_payment pv ex w)) = webhook_logs w"
  "clock (snd (find_payment pv ex w)) = clock w"
  by (simp_all add: find_payment_def find_by_transactionId_def select_by_external_id_def
      select_recent_by_phone_def pool_query_def
      split: list.splits option.splits prod.splits sum.splits)


lemma logWebhookData_payments:
  "payments (logWebhookData d st pid err w) = payments w"
  by (simp add: logWebhookData_def pool_query_def split: list.splits option.splits)


text \<open>
  The SET clause and its effect on a row.
\<close>

lemma updateData_cases:
  "updateData pv now st r =
     [Set_status st, Set_fastlipa_response r, Set_updated_at now]
     @ (if st = ''completed'' then [Set_paid_at now] else [])
     @ (case (if truthy r then truthy_prop r ''payment_id'' else None) of
          Some v \<Rightarrow> [Set_external_payment_id (pv v)] | None \<Rightarrow> [])"
  by (simp add: updateData_def)

lemma fold_assign_updateData:
  "fold assign (updateData pv now st r) p =
     p\<lparr>status := st, fastlipa_response := r, updated_at := now,
       paid_at := (if st = ''completed'' then Some now else paid_at p),
       external_payment_id :=
         (if truthy r
          then (case truthy_prop r ''payment_id'' of
                  Some v \<Rightarrow> Some (pv v)
                | None \<Rightarrow> external_payment_id p)
          else external_payment_id p)\<rparr>"
  by (simp add: updateData_def split: option.splits)


lemma sql_update_accepted:
  "sql_update sets l w = (Inr rows, w') \<Longrightarrow>
     payments w' = map (\<lambda>p. if payment_link_id p = l
                             then update_updated_at_column (clock w) (fold assign sets p) else p)
                     (payments w)"
  by (auto simp: sql_update_def Let_def pool_query_def
      split: list.splits option.splits prod.splits if_splits)

lemma sql_update_rejected:
  "sql_update sets l w = (Inl e, w') \<Longrightarrow> payments w' = payments w"
  by (auto simp: sql_update_def Let_def pool_query_def
      split: list.splits option.splits prod.splits if_splits)

lemma updatePaymentStatus_accepted:
  assumes "updatePaymentStatus pv l st r w = (Inr res, w')"
  shows "payments w' =
           map (\<lambda>p. if payment_link_id p = l
                    then update_updated_at_column (clock w) (fold assign (updateData pv (clock w) st r) p)
                    else p) (payments w)"
proof -
  obtain x w1 where s: "sql_update (updateData pv (clock w) st r) l w = (x, w1)"
    by (cases "sql_update (updateData pv (clock w) st r) l w")
  with assms obtain rows where "x = Inr rows" "w1 = w'"
    by (auto simp: updatePaymentStatus_def split: sum.splits)
  with s show ?thesis by (simp add: sql_update_accepted)
qed




section \<open>C1: the status vocabulary\<close>





section \<open>C2: the audit row of a notification\<close>




section \<open>C3: a notification that matches no payment\<close>




section \<open>C4: delivering a notification again\<close>






section \<open>C5: updating a link that does not exist\<close>

lemma sql_update_no_row:
  assumes "l \<notin> payment_link_id ` set (payments w)"
  shows "sql_update sets l w =
           (case pool_query w of
              (Some m, w') \<Rightarrow> (Inl (Error m), w')
            | (None, w') \<Rightarrow> (Inr [], w'))"
proof -
  have f: "filter (\<lambda>p. payment_link_id p = l) (payments w) = []"
    using assms by (auto simp: filter_empty_conv)
  have m: "map (\<lambda>p. if payment_link_id p = l then g p else p) (payments w) = payments w" for g
    by (rule map_idI) (use assms in auto)
  show ?thesis
    using f m
    by (auto simp: sql_update_def Let_def pool_query_def split: list.splits option.splits)
qed

text \<open>
  Claim C5, as the code has it. When no payment has the link id, \<open>updatePaymentStatus\<close>
  returns \<open>undefined\<close> without throwing and changes no payment; it throws only when
  the store rejects the UPDATE, with the message
  \<open>Failed to update payment status: ...\<close>.
\<close>

theorem update_of_unknown_link_returns_undefined:
  assumes "linkId \<notin> payment_link_id ` set (payments w)"
  shows "updatePaymentStatus pv linkId st r w =
           (case pool_query w of
              (None, w') \<Rightarrow> (Inr None, w')
            | (Some m, w') \<Rightarrow> (Inl (Error (''Failed to update payment status: '' @ m)), w'))
         \<and> payments (snd (updatePaymentStatus pv linkId st r w)) = payments w"
  using pool_query_frame(1)[of w]
  by (auto simp: updatePaymentStatus_def sql_update_no_row [OF assms] first_row_def
      split: prod.splits option.splits)

theorem update_of_unknown_link_witness:
  "updatePaymentStatus string_param ''no-such-link'' ''failed'' JNull example_world =
     (Inr None, example_world)"
proof -
  have h: "''no-such-link'' \<notin> payment_link_id ` set (payments example_world)"
    by (simp add: example_world_def example_payment_def)
  show ?thesis
    using update_of_unknown_link_returns_undefined [OF h, of string_param "''failed''" JNull]
    by (simp add: pool_query_def example_world_def)
qed

text \<open>
  Claim C5 as stated fails: no payment has the link \<open>no-such-link\<close>, and the update
  returns \<open>undefined\<close> instead of throwing.
\<close>

theorem update_of_unknown_link_counterexample:
  "''no-such-link'' \<notin> set (map payment_link_id (payments example_world))
   \<and> updatePaymentStatus string_param ''no-such-link'' ''completed'' JNull example_world =
       (Inr None, example_world)"
  by (simp add: example_world_def example_payment_def updatePaymentStatus_def sql_update_def
      pool_query_def first_row_def Let_def)

section \<open>C6: the external payment id\<close>

text \<open>
  \<open>updatePaymentStatus\<close> stores an external id when the blob has a truthy
  \<open>payment_id\<close>. The blob of the reconciler carries the transaction id under the key
  \<open>externalPaymentId\<close>, so no call of the reconciler ever changes an external id.
\<close>

lemma payment_id_is_persisted:
  assumes "updatePaymentStatus pv l st r w = (Inr res, w')"
    and "truthy r" and "truthy_prop r ''payment_id'' = Some v"
  shows "map external_payment_id (payments w') =
           map (\<lambda>p. if payment_link_id p = l then Some (pv v) else external_payment_id p)
             (payments w)"
  using assms(2,3)
  by (simp add: updatePaymentStatus_accepted [OF assms(1)] fold_assign_updateData
      update_updated_at_column_def)

lemma updatePaymentStatus_external_id:
  assumes "truthy_prop r ''payment_id'' = None"
  shows "map external_payment_id (payments (snd (updatePaymentStatus pv l st r w))) =
           map external_payment_id (payments w)"
proof -
  obtain x w1 where s: "sql_update (updateData pv (clock w) st r) l w = (x, w1)"
    by (cases "sql_update (updateData pv (clock w) st r) l w")
  show ?thesis
  proof (cases x)
    case (Inl e)
    with s sql_update_rejected [of "updateData pv (clock w) st r" l w e w1] show ?thesis
      by (simp add: updatePaymentStatus_def)
  next
    case (Inr rows)
    with s sql_update_accepted [of "updateData pv (clock w) st r" l w rows w1] assms
    show ?thesis
      by (simp add: updatePaymentStatus_def fold_assign_updateData update_updated_at_column_def)
  qed
qed

lemma webhook_blob_has_no_payment_id:
  "truthy_prop (webhook_blob d ex now) ''payment_id'' = None"
  by (simp add: webhook_blob_def truthy_prop_def)

lemma reconciler_never_sets_external_id:
  "map external_payment_id (payments (snd (handleFastlipaWebhook pv d w))) =
     map external_payment_id (payments w)"
proof -
  obtain r0 w0 where t: "webhook_try pv d w = (r0, w0)"
    by (cases "webhook_try pv d w")
  have "map external_payment_id (payments w0) = map external_payment_id (payments w)"
  proof (cases "extractFields d")
    case (Inl e)
    with t show ?thesis by (auto simp: webhook_try_def)
  next
    case (Inr ex)
    obtain f w1 where f: "find_payment pv ex w = (f, w1)"
      by (cases "find_payment pv ex w")
    have p1: "payments w1 = payments w"
      using find_payment_frame(1) [of pv ex w] f by simp
    show ?thesis
    proof (cases f)
      case (Inl e)
      with t Inr f p1 show ?thesis by (auto simp: webhook_try_def)
    next
      case found: (Inr po)
      show ?thesis
      proof (cases po)
        case None
        with t Inr f found p1 show ?thesis
          by (auto simp: webhook_try_def logWebhookData_payments)
      next
        case (Some p)
        let ?u = "updatePaymentStatus pv (payment_link_id p) (internalStatus (ex_status ex))
                    (webhook_blob d ex (clock w1)) w1"
        have "map external_payment_id (payments (snd ?u)) = map external_payment_id (payments w)"
          using updatePaymentStatus_external_id [OF webhook_blob_has_no_payment_id] p1 by simp
        with t Inr f found Some p1 show ?thesis
          by (cases ?u)
             (auto simp: webhook_try_def logWebhookData_payments split: if_splits sum.splits)
      qed
    qed
  qed
  with t show ?thesis
    by (auto simp: handleFastlipaWebhook_def logWebhookData_payments split: sum.splits)
qed

text \<open>
  Claim C6 at the example. The notification carries the transaction id
  \<open>pay_test123\<close>; the reconciler finds the payment by its phone number, completes it and
  attaches the blob with \<open>externalPaymentId = pay_test123\<close>, and the payment's external
  id is still NULL afterwards.
\<close>

theorem webhook_update_leaves_external_id_unset:
  "fst (handleFastlipaWebhook string_param example_webhook example_world) =
     Inr (Matched True ''Webhook processed successfully'' 7 ''processing'' ''completed''
            (Some (JStr ''pay_test123'')))
   \<and> map status (payments (snd (handleFastlipaWebhook string_param example_webhook
                                  example_world))) = [''completed'']
   \<and> map external_payment_id
        (payments (snd (handleFastlipaWebhook string_param example_webhook example_world))) =
      [None]"
  by (simp add: example_defs reconciler_defs)

section \<open>C7: the phone number sent to the gateway\<close>

lemma process_catch_requests:
  "gateway_requests (snd (process_catch pv l e w)) = gateway_requests w"
  using updatePaymentStatus_frame(3)[of pv l "''failed''" "JObj [(''error'', JStr (message e))]" w]
  by (auto simp: process_catch_def split: prod.splits sum.splits)

lemma processPayment_requests:
  "gateway_requests (snd (processPayment pv axios_post pd w)) =
     gateway_requests w @ [paymentPayload pd]"
proof -
  let ?w0 = "w\<lparr>gateway_requests := gateway_requests w @ [paymentPayload pd]\<rparr>"
  show ?thesis
  proof (cases "axios_post (paymentPayload pd)")
    case (Inl m)
    then show ?thesis
      by (simp add: processPayment_def Let_def process_catch_requests)
  next
    case (Inr data)
    obtain r w1 where u: "updatePaymentStatus pv (paymentLinkId pd) ''processing'' data ?w0 = (r, w1)"
      by (cases "updatePaymentStatus pv (paymentLinkId pd) ''processing'' data ?w0")
    have g: "gateway_requests w1 = gateway_requests w @ [paymentPayload pd]"
      using updatePaymentStatus_frame(3)[of pv "paymentLinkId pd" "''processing''" data ?w0] u
      by simp
    show ?thesis
      using Inr u g
      by (simp add: processPayment_def Let_def process_catch_requests split: sum.splits)
  qed
qed

lemma localPhoneNumber_prefix: "localPhoneNumber (''255'' @ rest) = rest"
  by (simp add: localPhoneNumber_def startsWith_def substring_def)

lemma localPhoneNumber_other:
  assumes "\<not> (\<exists>rest. phone = ''255'' @ rest)"
  shows "localPhoneNumber phone = phone"
proof -
  have "\<not> startsWith phone ''255''"
  proof
    assume "startsWith phone ''255''"
    then have t: "take (length ''255'') phone = ''255''"
      by (simp only: startsWith_def)
    have "phone = take (length ''255'') phone @ drop (length ''255'') phone"
      by (simp only: append_take_drop_id)
    with t have "phone = ''255'' @ drop (length ''255'') phone" by (simp only:)
    with assms show False by blast
  qed
  then show ?thesis by (simp add: localPhoneNumber_def)
qed

text \<open>
  Claim C7. \<open>processPayment\<close> sends exactly one request to the gateway. Its number is
  the input without its first three characters when the input starts with \<open>255\<close>, and
  the input itself otherwise.
\<close>

theorem phone_number_sent_to_gateway:
  "\<exists>sent. map number (gateway_requests (snd (processPayment pv axios_post pd w))) =
            map number (gateway_requests w) @ [sent]
        \<and> (\<forall>rest. phoneNumber pd = ''255'' @ rest \<longrightarrow> sent = rest)
        \<and> ((\<nexists>rest. phoneNumber pd = ''255'' @ rest) \<longrightarrow> sent = phoneNumber pd)"
proof (intro exI conjI allI impI)
  show "map number (gateway_requests (snd (processPayment pv axios_post pd w))) =
          map number (gateway_requests w) @ [localPhoneNumber (phoneNumber pd)]"
    by (simp add: processPayment_requests paymentPayload_def)
next
  fix rest assume "phoneNumber pd = ''255'' @ rest"
  then show "localPhoneNumber (phoneNumber pd) = rest"
    using localPhoneNumber_prefix [of rest] by simp
next
  assume "\<nexists>rest. phoneNumber pd = ''255'' @ rest"
  then show "localPhoneNumber (phoneNumber pd) = phoneNumber pd"
    by (rule localPhoneNumber_other)
qed

text \<open>
  \<open>255712345678\<close> is sent as \<open>712345678\<close>, and \<open>0712345678\<close> as it is.
\<close>

theorem phone_number_sent_to_gateway_witness:
  "map number (gateway_requests (snd (processPayment string_param unreachable_gateway
       example_paymentData example_world))) = [''712345678'']
   \<and> map number (gateway_requests (snd (processPayment string_param unreachable_gateway
       local_paymentData example_world))) = [''0712345678'']"
proof -
  have a: "phoneNumber example_paymentData = ''255'' @ ''712345678''"
    by (simp add: example_paymentData_def)
  have b: "\<nexists>rest. phoneNumber local_paymentData = ''255'' @ rest"
    by (simp add: local_paymentData_def)
  have g: "gateway_requests example_world = []"
    by (simp add: example_world_def)
  from phone_number_sent_to_gateway
         [of string_param unreachable_gateway example_paymentData example_world] a g
  have 1: "map number (gateway_requests (snd (processPayment string_param unreachable_gateway
       example_paymentData example_world))) = [''712345678'']"
    by auto
  from phone_number_sent_to_gateway
         [of string_param unreachable_gateway local_paymentData example_world] b g
  have 2: "map number (gateway_requests (snd (processPayment string_param unreachable_gateway
       local_paymentData example_world))) = [''0712345678'']"
    by (auto simp: local_paymentData_def)
  from 1 2 show ?thesis by simp
qed

section \<open>C8: a failed gateway call\<close>





section \<open>C9: when \<open>paid_at\<close> is written\<close>

lemma updateData_updated_at: "Set_updated_at now \<in> set (updateData pv now st r)"
  by (cases "if truthy r then truthy_prop r ''payment_id'' else None")
     (simp_all add: updateData_cases del: set_append)

lemma updateData_paid_at:
  "(\<exists>t. Set_paid_at t \<in> set (updateData pv now st r)) \<longleftrightarrow> st = ''completed''"
  by (cases "if truthy r then truthy_prop r ''payment_id'' else None")
     (auto simp: updateData_cases simp del: set_append)

lemma updateData_paid_at_now:
  "Set_paid_at t \<in> set (updateData pv now st r) \<Longrightarrow> t = now"
  by (cases "if truthy r then truthy_prop r ''payment_id'' else None")
     (auto simp: updateData_cases simp del: set_append split: if_splits)

lemma updatePaymentStatus_paid_at:
  assumes a: "updatePaymentStatus pv l st r w = (Inr res, w')"
  shows  "map paid_at (payments w') =
          map (\<lambda>p. if payment_link_id p = l \<and> st = ''completed''
                   then Some (clock w) else paid_at p) (payments w)"
  by (simp add: updatePaymentStatus_accepted [OF a] fold_assign_updateData
        update_updated_at_column_def)

lemma updatePaymentStatus_updated_at:
  assumes a: "updatePaymentStatus pv l st r w = (Inr res, w')"
  shows "map updated_at (payments w') =
          map (\<lambda>p. if payment_link_id p = l then clock w else updated_at p) (payments w)"
  by (simp add: updatePaymentStatus_accepted [OF a] update_updated_at_column_def)

text \<open>
  Claim C9. The SET clause of \<open>updatePaymentStatus\<close> holds \<open>paid_at\<close> exactly when the
  new status is \<open>completed\<close>, with the current time as its value, and it always holds
  \<open>updated_at\<close> with the current time. After an update that the store carried out, the
  rows of the link have \<open>paid_at\<close> equal to the current time for \<open>completed\<close> and
  unchanged for any other status, and their \<open>updated_at\<close> is the current time.
\<close>

theorem paid_at_only_when_completed:
  "((\<exists>t. Set_paid_at t \<in> set (updateData pv (clock w) st r)) \<longleftrightarrow> st = ''completed'')
   \<and> (\<forall>t. Set_paid_at t \<in> set (updateData pv (clock w) st r) \<longrightarrow> t = clock w)
   \<and> Set_updated_at (clock w) \<in> set (updateData pv (clock w) st r)
   \<and> (\<forall>res w'. updatePaymentStatus pv l st r w = (Inr res, w') \<longrightarrow>
        map paid_at (payments w') =
          map (\<lambda>p. if payment_link_id p = l \<and> st = ''completed''
                   then Some (clock w) else paid_at p) (payments w)
        \<and> map updated_at (payments w') =
          map (\<lambda>p. if payment_link_id p = l then clock w else updated_at p) (payments w))"
  using updateData_paid_at [of pv "clock w" st r] updateData_paid_at_now [of _ pv "clock w" st r]
    updateData_updated_at [of "clock w" pv st r]
    updatePaymentStatus_paid_at [of pv l st r w] updatePaymentStatus_updated_at [of pv l st r w]
  by blast

theorem paid_at_only_when_completed_witness:
  "map paid_at (payments (snd (updatePaymentStatus string_param ''link-1'' ''completed'' JNull
       example_world))) = [Some 2000]
   \<and> map paid_at (payments (snd (updatePaymentStatus string_param ''link-1'' ''failed'' JNull
       example_world))) = [None]
   \<and> map updated_at (payments (snd (updatePaymentStatus string_param ''link-1'' ''failed'' JNull
       example_world))) = [2000]"
proof -
  let ?c = "updatePaymentStatus string_param ''link-1'' ''completed'' JNull example_world"
  let ?f = "updatePaymentStatus string_param ''link-1'' ''failed'' JNull example_world"
  have "\<exists>res. fst ?c = Inr res"
    by (simp add: example_defs reconciler_defs)
  then obtain rc where c: "?c = (Inr rc, snd ?c)" by (cases ?c) auto
  have "\<exists>res. fst ?f = Inr res"
    by (simp add: example_defs reconciler_defs)
  then obtain rf where f: "?f = (Inr rf, snd ?f)" by (cases ?f) auto
  from paid_at_only_when_completed
         [where pv = string_param and l = "''link-1''" and st = "''completed''" and r = JNull
            and w = example_world] c
  have 1: "map paid_at (payments (snd ?c)) = [Some 2000]"
    by (simp add: example_world_def example_payment_def)
  from paid_at_only_when_completed
         [where pv = string_param and l = "''link-1''" and st = "''failed''" and r = JNull
            and w = example_world] f
  have 2: "map paid_at (payments (snd ?f)) = [None]"
     "map updated_at (payments (snd ?f)) = [2000]"
    by (simp_all add: example_world_def example_payment_def)
  from 1 2 show ?thesis by simp
qed

section \<open>C10: falsy fields of the payload\<close>







end
